theory Spec2Isabelle
  imports Complex_Main
begin

section \<open>The settings document\<close>

text \<open>
  Modelled from the spec: the document library (pugixml) and the helpers of
  \<^verbatim>\<open>xml_interface.h\<close> are not among the sources. The spec describes them as a navigable
  node tree that is consumed through "find child node by name / get value / get array".
  A node has a name, a text value and its child nodes in document order.
\<close>

datatype xml_node =
  Xml_node (node_name: string) (node_text: string) (node_children: "xml_node list")

text \<open>\<^verbatim>\<open>node.children(name)\<close>: the children called \<open>name\<close>, in document order.\<close>

definition children_named :: "xml_node \<Rightarrow> string \<Rightarrow> xml_node list" where
  "children_named node nm = filter (\<lambda>c. node_name c = nm) (node_children node)"

text \<open>\<^verbatim>\<open>node.child(name)\<close>: the first child called \<open>name\<close>, if there is one.\<close>

definition child :: "xml_node \<Rightarrow> string \<Rightarrow> xml_node option" where
  "child node nm = (case children_named node nm of [] \<Rightarrow> None | c # _ \<Rightarrow> Some c)"

text \<open>Modelled from the spec: \<^verbatim>\<open>check_for_node\<close> finds a child node by name.\<close>

definition check_for_node :: "xml_node \<Rightarrow> string \<Rightarrow> bool" where
  "check_for_node node nm = (child node nm \<noteq> None)"

text \<open>
  Modelled from the spec: "trim and lowercase applied by the document-access layer".
  Lowercasing maps the ASCII capitals to their small letters; trimming removes blanks,
  tabs, carriage returns and line feeds at both ends.
\<close>

definition to_lower_char :: "char \<Rightarrow> char" where
  "to_lower_char c =
     (let n = (of_char c :: nat) in if 65 \<le> n \<and> n \<le> 90 then char_of (n + 32) else c)"

definition to_lower :: "string \<Rightarrow> string" where
  "to_lower s = map to_lower_char s"

definition is_space :: "char \<Rightarrow> bool" where
  "is_space c = (c = CHR '' '' \<or> c = CHR 0x09 \<or> c = CHR 0x0A \<or> c = CHR 0x0D)"

definition strip :: "string \<Rightarrow> string" where
  "strip s = rev (dropWhile is_space (rev (dropWhile is_space s)))"

text \<open>
  Modelled from the spec: \<^verbatim>\<open>get_node_value(node, name, lowercase, strip)\<close> gets the value
  of the child called \<open>name\<close>, lowercased and trimmed on request; a call with two
  arguments asks for neither and gets the value as the document has it. Every call
  in \<open>read_settings\<close> is guarded by \<open>check_for_node\<close>; for an absent child the
  model returns the empty string.
\<close>

definition get_node_value :: "xml_node \<Rightarrow> string \<Rightarrow> bool \<Rightarrow> bool \<Rightarrow> string" where
  "get_node_value node nm lowercase do_strip =
     (case child node nm of
        None \<Rightarrow> []
      | Some c \<Rightarrow>
          (let v = node_text c;
               v1 = (if lowercase then to_lower v else v)
           in if do_strip then strip v1 else v1))"

text \<open>
  Modelled from the spec: \<^verbatim>\<open>ends_with\<close> of \<^verbatim>\<open>string_utils.h\<close> is not among the sources;
  the spec's path normalizer asks whether a string ends with the separator.
\<close>

definition ends_with :: "string \<Rightarrow> string \<Rightarrow> bool" where
  "ends_with val ending =
     (length ending \<le> length val \<and> drop (length val - length ending) val = ending)"

section \<open>Source distributions\<close>

text \<open>
  The three distribution hierarchies. \<open>read_settings\<close> itself builds a \<open>SpatialPoint\<close>,
  an \<open>Isotropic\<close> and a \<open>Watt\<close>; the other subclasses are declared in headers that are
  not among the sources and only arise from a \<^verbatim>\<open>source\<close> node of the document.
  Numbers of type \<^verbatim>\<open>double\<close> are the reals their literals denote: \<open>read_settings\<close>
  stores and copies them and does no arithmetic on them.
\<close>

datatype SpatialDistribution = SpatialPoint real real real | SpatialOther xml_node

datatype UnitSphereDistribution = Isotropic | AngleOther xml_node

datatype Distribution = Watt real real | EnergyOther xml_node

record SourceDistribution =
  spatial :: SpatialDistribution
  angular :: UnitSphereDistribution
  energy :: Distribution

section \<open>Errors and external collaborators\<close>

text \<open>
  \<open>FatalError msg\<close> is a call of \<^verbatim>\<open>fatal_error(msg)\<close>; \<open>InvalidArgument\<close> is the
  exception of \<^verbatim>\<open>std::stod\<close> on a string that is not a number; \<open>OutOfBounds\<close> is the
  read of \<^verbatim>\<open>range[0]\<close> or \<^verbatim>\<open>range[1]\<close> beyond the end of the array.
\<close>

datatype error = FatalError string | InvalidArgument | OutOfBounds

text \<open>
  What \<open>read_settings\<close> uses and neither the sources nor the spec determine is a
  parameter: the constants of \<^verbatim>\<open>constants.h\<close>, the conversions of strings to numbers,
  booleans and arrays, and the constructor of a \<open>SourceDistribution\<close> from a node,
  which fails on a malformed node.
\<close>

record externals =
  RUN_MODE_PLOTTING :: int
  TEMPERATURE_NEAREST :: int
  TEMPERATURE_INTERPOLATION :: int
  stod :: "string \<Rightarrow> real option"
  get_node_value_bool :: "xml_node \<Rightarrow> string \<Rightarrow> bool"
  get_node_array :: "xml_node \<Rightarrow> string \<Rightarrow> real list"
  SourceDistribution_node :: "xml_node \<Rightarrow> error + SourceDistribution"

section \<open>The settings registry\<close>

text \<open>
  The global variables that \<open>read_settings\<close> reads or writes, \<open>energy_cutoff\<close>, the
  vector \<open>external_sources\<close> and the warnings printed so far. The other globals of
  namespace \<open>settings\<close> are neither read nor written by \<open>read_settings\<close> and are
  left out. The arrays of fixed size \<^verbatim>\<open>energy_cutoff[4]\<close> and
  \<^verbatim>\<open>temperature_range[2]\<close> are tuples.
\<close>

record globals =
  temperature_multipole :: bool
  path_cross_sections :: string
  path_multipole :: string
  path_output :: string
  energy_cutoff :: "real \<times> real \<times> real \<times> real"
  run_mode :: int
  temperature_method :: int
  temperature_tolerance :: real
  temperature_default :: real
  temperature_range :: "real \<times> real"
  external_sources :: "SourceDistribution list"
  warnings :: "string list"

text \<open>The initialisers of namespace \<open>settings\<close>; globals without one start at zero.\<close>

definition settings :: "externals \<Rightarrow> globals" where
  "settings e =
     \<lparr> temperature_multipole = False,
       path_cross_sections = [],
       path_multipole = [],
       path_output = [],
       energy_cutoff = (0.0, 1000.0, 0.0, 0.0),
       run_mode = 0,
       temperature_method = TEMPERATURE_NEAREST e,
       temperature_tolerance = 10.0,
       temperature_default = 293.6,
       temperature_range = (0.0, 0.0),
       external_sources = [],
       warnings = [] \<rparr>"

section \<open>read_settings\<close>

text \<open>
  A statement takes the globals and returns them updated, with the error that ended
  the run, if any. The globals at the moment of the error are kept: nothing is undone.
\<close>

type_synonym step = "globals \<Rightarrow> error option \<times> globals"

fun run :: "step list \<Rightarrow> step" where
  "run [] st = (None, st)"
| "run (f # fs) st =
     (case f st of
        (None, st') \<Rightarrow> run fs st'
      | (Some err, st') \<Rightarrow> (Some err, st'))"

definition warning :: "string \<Rightarrow> globals \<Rightarrow> globals" where
  "warning msg st = st\<lparr>warnings := warnings st @ [msg]\<rparr>"

definition fatal_error :: "string \<Rightarrow> step" where
  "fatal_error msg st = (Some (FatalError msg), st)"

definition cross_sections_deprecated :: string where
  "cross_sections_deprecated =
     ''Setting cross_sections in settings.xml has been deprecated.'' @
     '' The cross_sections are now set in materials.xml and the '' @
     ''cross_sections input to materials.xml and the OPENMC_CROSS_SECTIONS'' @
     '' environment variable will take precendent over setting '' @
     ''cross_sections in settings.xml.''"

definition multipole_library_deprecated :: string where
  "multipole_library_deprecated =
     ''Setting multipole_library in settings.xml has been '' @
     ''deprecated. The multipole_library is now set in materials.xml and'' @
     '' the multipole_library input to materials.xml and the '' @
     ''OPENMC_MULTIPOLE_LIBRARY environment variable will take '' @
     ''precendent over setting multipole_library in settings.xml.''"

text \<open>The statement \<^verbatim>\<open>if (!ends_with(p, "/")) { p += "/"; }\<close>, on the path \<open>p\<close>.\<close>

definition append_separator :: "string \<Rightarrow> string" where
  "append_separator p = (if \<not> ends_with p ''/'' then p @ ''/'' else p)"

text \<open>Lines 86 to 94: look for deprecated cross_sections.xml file in settings.xml.\<close>

definition read_cross_sections :: "xml_node \<Rightarrow> step" where
  "read_cross_sections root_node st =
     (if check_for_node root_node ''cross_sections''
      then (None, (warning cross_sections_deprecated st)
                    \<lparr>path_cross_sections := get_node_value root_node ''cross_sections'' False False\<rparr>)
      else (None, st))"

text \<open>Lines 96 to 109: look for deprecated windowed_multipole file in settings.xml.\<close>

definition read_multipole_library :: "externals \<Rightarrow> xml_node \<Rightarrow> step" where
  "read_multipole_library e root_node st =
     (if run_mode st \<noteq> RUN_MODE_PLOTTING e
      then
        (let st1 =
               (if check_for_node root_node ''multipole_library''
                then (warning multipole_library_deprecated st)
                       \<lparr>path_multipole := get_node_value root_node ''multipole_library'' False False\<rparr>
                else st)
         in (None, st1\<lparr>path_multipole := append_separator (path_multipole st1)\<rparr>))
      else (None, st))"

text \<open>Lines 111 to 124: check for output options.\<close>

definition read_output :: "xml_node \<Rightarrow> step" where
  "read_output root_node st =
     (case child root_node ''output'' of
        None \<Rightarrow> (None, st)
      | Some node_output \<Rightarrow>
          (if check_for_node node_output ''path''
           then (None, st\<lparr>path_output :=
                            append_separator (get_node_value node_output ''path'' False False)\<rparr>)
           else (None, st)))"

text \<open>Lines 126 to 150: get temperature settings, one definition for each \<^verbatim>\<open>if\<close>.\<close>

definition read_temperature_default :: "externals \<Rightarrow> xml_node \<Rightarrow> step" where
  "read_temperature_default e root_node st =
     (if check_for_node root_node ''temperature_default''
      then (case stod e (get_node_value root_node ''temperature_default'' False False) of
              None \<Rightarrow> (Some InvalidArgument, st)
            | Some v \<Rightarrow> (None, st\<lparr>temperature_default := v\<rparr>))
      else (None, st))"

definition read_temperature_method :: "externals \<Rightarrow> xml_node \<Rightarrow> step" where
  "read_temperature_method e root_node st =
     (if check_for_node root_node ''temperature_method''
      then (let temp_str = get_node_value root_node ''temperature_method'' True True
            in if temp_str = ''nearest''
               then (None, st\<lparr>temperature_method := TEMPERATURE_NEAREST e\<rparr>)
               else if temp_str = ''interpolation''
               then (None, st\<lparr>temperature_method := TEMPERATURE_INTERPOLATION e\<rparr>)
               else fatal_error (''Unknown temperature method: '' @ temp_str) st)
      else (None, st))"

definition read_temperature_tolerance :: "externals \<Rightarrow> xml_node \<Rightarrow> step" where
  "read_temperature_tolerance e root_node st =
     (if check_for_node root_node ''temperature_tolerance''
      then (case stod e (get_node_value root_node ''temperature_tolerance'' False False) of
              None \<Rightarrow> (Some InvalidArgument, st)
            | Some v \<Rightarrow> (None, st\<lparr>temperature_tolerance := v\<rparr>))
      else (None, st))"

definition read_temperature_multipole :: "externals \<Rightarrow> xml_node \<Rightarrow> step" where
  "read_temperature_multipole e root_node st =
     (if check_for_node root_node ''temperature_multipole''
      then (None, st\<lparr>temperature_multipole :=
                       get_node_value_bool e root_node ''temperature_multipole''\<rparr>)
      else (None, st))"

definition read_temperature_range :: "externals \<Rightarrow> xml_node \<Rightarrow> step" where
  "read_temperature_range e root_node st =
     (if check_for_node root_node ''temperature_range''
      then (let range_v = get_node_array e root_node ''temperature_range''
            in if length range_v < 1 then (Some OutOfBounds, st)
               else if length range_v < 2
               then (Some OutOfBounds,
                     st\<lparr>temperature_range := (range_v ! 0, snd (temperature_range st))\<rparr>)
               else (None, st\<lparr>temperature_range := (range_v ! 0, range_v ! 1)\<rparr>))
      else (None, st))"

text \<open>
  Lines 156 to 158: the loop over the \<^verbatim>\<open>source\<close> elements, one \<^verbatim>\<open>emplace_back\<close> for
  each. When the constructor fails, the sources built so far stay in the vector.
\<close>

fun read_sources :: "externals \<Rightarrow> xml_node list \<Rightarrow> step" where
  "read_sources e [] st = (None, st)"
| "read_sources e (node # nodes) st =
     (case SourceDistribution_node e node of
        Inl err \<Rightarrow> (Some err, st)
      | Inr src \<Rightarrow> read_sources e nodes (st\<lparr>external_sources := external_sources st @ [src]\<rparr>))"

text \<open>
  Lines 160 to 168: if no source specified, default to isotropic point source at origin
  with Watt spectrum.
\<close>

definition default_source :: "step" where
  "default_source st =
     (if external_sources st = []
      then (let source = \<lparr> spatial = SpatialPoint 0.0 0.0 0.0,
                            angular = Isotropic,
                            energy = Watt 0.988 (2.249 / 10 ^ 6) \<rparr>
            in (None, st\<lparr>external_sources := external_sources st @ [source]\<rparr>))
      else (None, st))"

text \<open>
  The function: its statements in the order of the source. The parameter \<^verbatim>\<open>root\<close> is
  called \<open>root_node\<close> here.
\<close>

definition read_settings :: "externals \<Rightarrow> xml_node \<Rightarrow> step" where
  "read_settings e root_node =
     run [ read_cross_sections root_node,
           read_multipole_library e root_node,
           read_output root_node,
           read_temperature_default e root_node,
           read_temperature_method e root_node,
           read_temperature_tolerance e root_node,
           read_temperature_multipole e root_node,
           read_temperature_range e root_node,
           read_sources e (children_named root_node ''source''),
           default_source ]"

section \<open>Notions used in the statements\<close>

text \<open>The value that \<open>read_settings\<close> compares with the names of the temperature methods.\<close>

definition temp_str :: "xml_node \<Rightarrow> string" where
  "temp_str r = get_node_value r ''temperature_method'' True True"

text \<open>The output directory given by the document, when \<^verbatim>\<open>output\<close> has a \<^verbatim>\<open>path\<close>.\<close>

definition output_path :: "xml_node \<Rightarrow> string option" where
  "output_path r =
     (case child r ''output'' of None \<Rightarrow> None
      | Some node_output \<Rightarrow>
          if check_for_node node_output ''path''
          then Some (get_node_value node_output ''path'' False False) else None)"

text \<open>The constructor of \<open>SourceDistribution\<close> accepts the node.\<close>

definition constructs :: "externals \<Rightarrow> xml_node \<Rightarrow> bool" where
  "constructs e node = (case SourceDistribution_node e node of Inl _ \<Rightarrow> False | Inr _ \<Rightarrow> True)"

text \<open>
  The document keeps to the schema: the numeric fields hold numbers, the temperature
  method is one of the two names, the temperature range has two entries and every
  \<^verbatim>\<open>source\<close> node is well-formed. An absent field is always in order.
\<close>

definition valid_document :: "externals \<Rightarrow> xml_node \<Rightarrow> bool" where
  "valid_document e r =
     ((check_for_node r ''temperature_default'' \<longrightarrow>
         stod e (get_node_value r ''temperature_default'' False False) \<noteq> None) \<and>
      (check_for_node r ''temperature_method'' \<longrightarrow>
         temp_str r = ''nearest'' \<or> temp_str r = ''interpolation'') \<and>
      (check_for_node r ''temperature_tolerance'' \<longrightarrow>
         stod e (get_node_value r ''temperature_tolerance'' False False) \<noteq> None) \<and>
      (check_for_node r ''temperature_range'' \<longrightarrow>
         2 \<le> length (get_node_array e r ''temperature_range'')) \<and>
      list_all (constructs e) (children_named r ''source''))"

section \<open>Sample collaborators and documents\<close>

text \<open>
  One choice of the parameters, for the examples: the conversions are given on the
  strings that the sample documents contain, and the constructor of a source refuses
  the node whose text is \<^verbatim>\<open>malformed\<close>.
\<close>

definition sample_externals :: externals where
  "sample_externals =
     \<lparr> RUN_MODE_PLOTTING = 3,
       TEMPERATURE_NEAREST = 1,
       TEMPERATURE_INTERPOLATION = 2,
       stod = map_of [(''300'', 300), (''0.5'', 0.5)],
       get_node_value_bool = (\<lambda>node nm. get_node_value node nm True True = ''true''),
       get_node_array =
         (\<lambda>node nm. case map_of [(''600 300'', [600, 300]), (''250'', [250])]
                               (get_node_value node nm False False) of
                        None \<Rightarrow> [] | Some a \<Rightarrow> a),
       SourceDistribution_node =
         (\<lambda>node. if node_text node = ''malformed''
                  then Inl (FatalError ''malformed source'')
                  else Inr \<lparr> spatial = SpatialOther node, angular = AngleOther node,
                             energy = EnergyOther node \<rparr>) \<rparr>"

definition doc_no_source :: xml_node where
  "doc_no_source =
     Xml_node ''settings'' []
       [Xml_node ''temperature_default'' ''300'' [],
        Xml_node ''temperature_method'' ''interpolation'' []]"

definition doc_two_sources :: xml_node where
  "doc_two_sources =
     Xml_node ''settings'' []
       [Xml_node ''source'' ''first'' [],
        Xml_node ''temperature_tolerance'' ''0.5'' [],
        Xml_node ''source'' ''second'' []]"

definition doc_bad_method :: xml_node where
  "doc_bad_method =
     Xml_node ''settings'' []
       [Xml_node ''cross_sections'' ''xs/cross_sections.xml'' [],
        Xml_node ''output'' [] [Xml_node ''path'' ''results'' []],
        Xml_node ''temperature_default'' ''300'' [],
        Xml_node ''temperature_method'' '' Bogus'' [],
        Xml_node ''source'' ''first'' []]"

definition doc_nearest :: xml_node where
  "doc_nearest =
     Xml_node ''settings'' []
       [Xml_node ''temperature_method'' ''Nearest '' []]"

definition doc_legacy :: xml_node where
  "doc_legacy =
     Xml_node ''settings'' []
       [Xml_node ''cross_sections'' ''xs/cross_sections.xml'' [],
        Xml_node ''multipole_library'' ''wmp'' [],
        Xml_node ''temperature_range'' ''600 300'' []]"

section \<open>The statements of read_settings, one by one\<close>

lemma run_Cons_if:
  "run (f # fs) st = (if fst (f st) = None then run fs (snd (f st)) else f st)"
  by (cases "f st") (auto split: option.splits)

lemma run_invariant:
  assumes "\<And>f st. f \<in> set fs \<Longrightarrow> I st \<Longrightarrow> I (snd (f st))" and "I st"
  shows "I (snd (run fs st))"
  using assms
proof (induction fs arbitrary: st)
  case Nil
  then show ?case by simp
next
  case (Cons f fs)
  show ?case
  proof (cases "fst (f st) = None")
    case True
    have "I (snd (f st))" using Cons.prems by simp
    then have "I (snd (run fs (snd (f st))))"
      using Cons.IH Cons.prems(1) by simp
    then show ?thesis using True by (simp add: run_Cons_if del: run.simps)
  next
    case False
    then show ?thesis using Cons.prems by (auto simp add: run_Cons_if simp del: run.simps)
  qed
qed

lemma fst_read_cross_sections: "fst (read_cross_sections r st) = None"
  by (simp add: read_cross_sections_def)

lemma snd_read_cross_sections:
  "snd (read_cross_sections r st) =
     st\<lparr>warnings := (if check_for_node r ''cross_sections''
                      then warnings st @ [cross_sections_deprecated] else warnings st),
        path_cross_sections := (if check_for_node r ''cross_sections''
                      then get_node_value r ''cross_sections'' False False
                      else path_cross_sections st)\<rparr>"
  by (simp add: read_cross_sections_def warning_def)

lemma fst_read_multipole_library: "fst (read_multipole_library e r st) = None"
  by (simp add: read_multipole_library_def Let_def)

lemma snd_read_multipole_library:
  "snd (read_multipole_library e r st) =
     st\<lparr>warnings := (if run_mode st \<noteq> RUN_MODE_PLOTTING e \<and> check_for_node r ''multipole_library''
                      then warnings st @ [multipole_library_deprecated] else warnings st),
        path_multipole := (if run_mode st \<noteq> RUN_MODE_PLOTTING e
                      then append_separator (if check_for_node r ''multipole_library''
                             then get_node_value r ''multipole_library'' False False
                             else path_multipole st)
                      else path_multipole st)\<rparr>"
  by (simp add: read_multipole_library_def warning_def Let_def)

lemma fst_read_output: "fst (read_output r st) = None"
  by (simp add: read_output_def split: option.splits)

lemma snd_read_output:
  "snd (read_output r st) =
     st\<lparr>path_output := (case output_path r of None \<Rightarrow> path_output st
                         | Some p \<Rightarrow> append_separator p)\<rparr>"
  by (simp add: read_output_def output_path_def split: option.splits)

lemma fst_read_temperature_default:
  "fst (read_temperature_default e r st) =
     (if check_for_node r ''temperature_default'' \<and>
         stod e (get_node_value r ''temperature_default'' False False) = None
      then Some InvalidArgument else None)"
  by (simp add: read_temperature_default_def split: option.splits)

lemma snd_read_temperature_default:
  "snd (read_temperature_default e r st) =
     st\<lparr>temperature_default :=
          (if check_for_node r ''temperature_default''
           then case stod e (get_node_value r ''temperature_default'' False False) of
                  None \<Rightarrow> temperature_default st | Some v \<Rightarrow> v
           else temperature_default st)\<rparr>"
  by (simp add: read_temperature_default_def split: option.splits)

lemma fst_read_temperature_method:
  "fst (read_temperature_method e r st) =
     (if check_for_node r ''temperature_method'' \<and>
         temp_str r \<noteq> ''nearest'' \<and> temp_str r \<noteq> ''interpolation''
      then Some (FatalError (''Unknown temperature method: '' @ temp_str r)) else None)"
  by (simp add: read_temperature_method_def fatal_error_def temp_str_def Let_def)

lemma snd_read_temperature_method:
  "snd (read_temperature_method e r st) =
     st\<lparr>temperature_method :=
          (if check_for_node r ''temperature_method'' \<and> temp_str r = ''nearest''
           then TEMPERATURE_NEAREST e
           else if check_for_node r ''temperature_method'' \<and> temp_str r = ''interpolation''
           then TEMPERATURE_INTERPOLATION e
           else temperature_method st)\<rparr>"
  by (simp add: read_temperature_method_def fatal_error_def temp_str_def Let_def)

lemma fst_read_temperature_tolerance:
  "fst (read_temperature_tolerance e r st) =
     (if check_for_node r ''temperature_tolerance'' \<and>
         stod e (get_node_value r ''temperature_tolerance'' False False) = None
      then Some InvalidArgument else None)"
  by (simp add: read_temperature_tolerance_def split: option.splits)

lemma snd_read_temperature_tolerance:
  "snd (read_temperature_tolerance e r st) =
     st\<lparr>temperature_tolerance :=
          (if check_for_node r ''temperature_tolerance''
           then case stod e (get_node_value r ''temperature_tolerance'' False False) of
                  None \<Rightarrow> temperature_tolerance st | Some v \<Rightarrow> v
           else temperature_tolerance st)\<rparr>"
  by (simp add: read_temperature_tolerance_def split: option.splits)

lemma fst_read_temperature_multipole: "fst (read_temperature_multipole e r st) = None"
  by (simp add: read_temperature_multipole_def)

lemma snd_read_temperature_multipole:
  "snd (read_temperature_multipole e r st) =
     st\<lparr>temperature_multipole :=
          (if check_for_node r ''temperature_multipole''
           then get_node_value_bool e r ''temperature_multipole''
           else temperature_multipole st)\<rparr>"
  by (simp add: read_temperature_multipole_def)

lemma fst_read_temperature_range:
  "fst (read_temperature_range e r st) =
     (if check_for_node r ''temperature_range'' \<and>
         length (get_node_array e r ''temperature_range'') < 2
      then Some OutOfBounds else None)"
  by (simp add: read_temperature_range_def Let_def)

lemma snd_read_temperature_range:
  "snd (read_temperature_range e r st) =
     st\<lparr>temperature_range :=
          (if check_for_node r ''temperature_range''
           then (let a = get_node_array e r ''temperature_range''
                 in (if 1 \<le> length a then a ! 0 else fst (temperature_range st),
                     if 2 \<le> length a then a ! 1 else snd (temperature_range st)))
           else temperature_range st)\<rparr>"
  by (auto simp add: read_temperature_range_def Let_def Suc_le_eq)

lemma fst_read_sources:
  "(fst (read_sources e nodes st) = None) = list_all (constructs e) nodes"
  by (induction nodes arbitrary: st) (auto simp: constructs_def split: sum.splits)

lemma snd_read_sources_frame:
  "\<exists>srcs. snd (read_sources e nodes st) = st\<lparr>external_sources := srcs\<rparr>"
proof (induction nodes arbitrary: st)
  case Nil
  show ?case by (rule exI [of _ "external_sources st"]) simp
next
  case (Cons node nodes)
  show ?case
  proof (cases "SourceDistribution_node e node")
    case (Inl err)
    then show ?thesis by (intro exI [of _ "external_sources st"]) simp
  next
    case (Inr src)
    obtain srcs where
      "snd (read_sources e nodes (st\<lparr>external_sources := external_sources st @ [src]\<rparr>)) =
         st\<lparr>external_sources := external_sources st @ [src]\<rparr>\<lparr>external_sources := srcs\<rparr>"
      using Cons.IH by blast
    then show ?thesis using Inr by auto
  qed
qed

lemma snd_read_sources_ok:
  "list_all (constructs e) nodes \<Longrightarrow>
     map Inr (external_sources (snd (read_sources e nodes st))) =
       map Inr (external_sources st) @ map (SourceDistribution_node e) nodes"
  by (induction nodes arbitrary: st) (auto simp: constructs_def split: sum.splits)

lemma fst_default_source: "fst (default_source st) = None"
  by (simp add: default_source_def Let_def)

lemma snd_default_source:
  "snd (default_source st) =
     st\<lparr>external_sources :=
          (if external_sources st = []
           then [\<lparr>spatial = SpatialPoint 0 0 0, angular = Isotropic,
                   energy = Watt 0.988 (2.249 / 10 ^ 6)\<rparr>]
           else external_sources st)\<rparr>"
  by (simp add: default_source_def Let_def)

lemmas fst_steps =
  fst_read_cross_sections fst_read_multipole_library fst_read_output
  fst_read_temperature_default fst_read_temperature_method fst_read_temperature_tolerance
  fst_read_temperature_multipole fst_read_temperature_range fst_read_sources
  fst_default_source

lemmas snd_steps =
  snd_read_cross_sections snd_read_multipole_library snd_read_output
  snd_read_temperature_default snd_read_temperature_method snd_read_temperature_tolerance
  snd_read_temperature_multipole snd_read_temperature_range snd_default_source


lemma run_Cons_ok: "fst (f st) = None \<Longrightarrow> run (f # fs) st = run fs (snd (f st))"
  by (simp add: run_Cons_if del: run.simps(2))

lemma fst_run_Cons:
  "(fst (run (f # fs) st) = None) = (fst (f st) = None \<and> fst (run fs (snd (f st))) = None)"
  by (auto simp add: run_Cons_if simp del: run.simps(2))

lemma read_settings_succeeds_iff:
  "(fst (read_settings e r st) = None) = valid_document e r"
  by (simp add: read_settings_def valid_document_def fst_run_Cons fst_steps not_less
           del: run.simps(2))

lemma read_sources_fields:
  "warnings (snd (read_sources e nodes st)) = warnings st"
  "run_mode (snd (read_sources e nodes st)) = run_mode st"
  "path_cross_sections (snd (read_sources e nodes st)) = path_cross_sections st"
  "path_multipole (snd (read_sources e nodes st)) = path_multipole st"
  "path_output (snd (read_sources e nodes st)) = path_output st"
  "temperature_default (snd (read_sources e nodes st)) = temperature_default st"
  "temperature_method (snd (read_sources e nodes st)) = temperature_method st"
  "temperature_range (snd (read_sources e nodes st)) = temperature_range st"
  using snd_read_sources_frame [of e nodes st] by auto

lemma run_append:
  "run (fs @ gs) st = (if fst (run fs st) = None then run gs (snd (run fs st)) else run fs st)"
proof (induction fs arbitrary: st)
  case Nil
  then show ?case by simp
next
  case (Cons f fs)
  then show ?case by (auto simp add: run_Cons_if simp del: run.simps(2))
qed

lemma run_append_ok:
  "fst (run fs st) = None \<Longrightarrow> run (fs @ gs) st = run gs (snd (run fs st))"
  by (simp add: run_append)

lemma run_tail_invariant:
  assumes "fst (f st) = None"
    and "I (snd (f st))"
    and "\<And>g s. g \<in> set fs \<Longrightarrow> I s \<Longrightarrow> I (snd (g s))"
  shows "I (snd (run (f # fs) st))"
  using assms run_invariant [of fs I "snd (f st)"]
  by (simp add: run_Cons_ok del: run.simps(2))

lemma run_Cons_fail: "fst (f st) \<noteq> None \<Longrightarrow> run (f # fs) st = f st"
  by (auto simp add: run_Cons_if simp del: run.simps(2))

section \<open>Fields after the load, whatever its outcome\<close>

lemma cross_sections_not_multipole: "cross_sections_deprecated \<noteq> multipole_library_deprecated"
  by (simp add: cross_sections_deprecated_def multipole_library_deprecated_def)

lemma path_cross_sections_read_settings:
  "path_cross_sections (snd (read_settings e r st)) =
     (if check_for_node r ''cross_sections''
      then get_node_value r ''cross_sections'' False False else path_cross_sections st)"
  (is "_ = ?v")
  unfolding read_settings_def
proof (rule run_tail_invariant [where I = "\<lambda>s :: globals. path_cross_sections s = ?v"])
  show "fst (read_cross_sections r st) = None" by (simp add: fst_steps)
  show "path_cross_sections (snd (read_cross_sections r st)) = ?v" by (simp add: snd_steps)
next
  fix g and s :: globals
  assume "g \<in> set [read_multipole_library e r, read_output r,
                read_temperature_default e r, read_temperature_method e r,
                read_temperature_tolerance e r, read_temperature_multipole e r,
                read_temperature_range e r,
                read_sources e (children_named r ''source''), default_source]"
    and "path_cross_sections s = ?v"
  then show "path_cross_sections (snd (g s)) = ?v"
    by (auto simp add: snd_steps read_sources_fields)
qed

lemma path_multipole_read_settings:
  "path_multipole (snd (read_settings e r st)) =
     (if run_mode st \<noteq> RUN_MODE_PLOTTING e
      then append_separator
             (if check_for_node r ''multipole_library''
              then get_node_value r ''multipole_library'' False False else path_multipole st)
      else path_multipole st)"
  (is "_ = ?v")
proof -
  let ?s1 = "snd (read_cross_sections r st)"
  have one: "read_settings e r st =
      run [read_multipole_library e r, read_output r,
           read_temperature_default e r, read_temperature_method e r,
           read_temperature_tolerance e r, read_temperature_multipole e r,
           read_temperature_range e r,
           read_sources e (children_named r ''source''), default_source] ?s1"
    by (simp add: read_settings_def run_Cons_ok fst_steps del: run.simps(2))
  show ?thesis
    unfolding one
  proof (rule run_tail_invariant [where I = "\<lambda>s :: globals. path_multipole s = ?v"])
    show "fst (read_multipole_library e r ?s1) = None" by (simp add: fst_steps)
    show "path_multipole (snd (read_multipole_library e r ?s1)) = ?v"
      by (simp add: snd_steps)
  next
    fix g and s :: globals
    assume "g \<in> set [read_output r,
                read_temperature_default e r, read_temperature_method e r,
                read_temperature_tolerance e r, read_temperature_multipole e r,
                read_temperature_range e r,
                read_sources e (children_named r ''source''), default_source]"
      and "path_multipole s = ?v"
    then show "path_multipole (snd (g s)) = ?v"
      by (auto simp add: snd_steps read_sources_fields)
  qed
qed

lemma path_output_read_settings:
  "path_output (snd (read_settings e r st)) =
     (case output_path r of None \<Rightarrow> path_output st | Some p \<Rightarrow> append_separator p)"
  (is "_ = ?v")
proof -
  let ?s2 = "snd (read_multipole_library e r (snd (read_cross_sections r st)))"
  have two: "read_settings e r st =
      run [read_output r,
           read_temperature_default e r, read_temperature_method e r,
           read_temperature_tolerance e r, read_temperature_multipole e r,
           read_temperature_range e r,
           read_sources e (children_named r ''source''), default_source] ?s2"
    by (simp add: read_settings_def run_Cons_ok fst_steps del: run.simps(2))
  show ?thesis
    unfolding two
  proof (rule run_tail_invariant [where I = "\<lambda>s :: globals. path_output s = ?v"])
    show "fst (read_output r ?s2) = None" by (simp add: fst_steps)
    show "path_output (snd (read_output r ?s2)) = ?v"
      by (simp add: snd_steps split: option.splits)
  next
    fix g and s :: globals
    assume "g \<in> set [read_temperature_default e r, read_temperature_method e r,
                read_temperature_tolerance e r, read_temperature_multipole e r,
                read_temperature_range e r,
                read_sources e (children_named r ''source''), default_source]"
      and "path_output s = ?v"
    then show "path_output (snd (g s)) = ?v"
      by (auto simp add: snd_steps read_sources_fields)
  qed
qed

lemma temperature_default_read_settings:
  assumes "fst (read_settings e r st) \<noteq> Some InvalidArgument"
  shows "temperature_default (snd (read_settings e r st)) =
     (if check_for_node r ''temperature_default''
      then case stod e (get_node_value r ''temperature_default'' False False) of
             None \<Rightarrow> temperature_default st | Some v \<Rightarrow> v
      else temperature_default st)"
  (is "_ = ?v")
proof -
  let ?s3 = "snd (read_output r (snd (read_multipole_library e r (snd (read_cross_sections r st)))))"
  let ?rest = "[read_temperature_method e r,
           read_temperature_tolerance e r, read_temperature_multipole e r,
           read_temperature_range e r,
           read_sources e (children_named r ''source''), default_source]"
  have three: "read_settings e r st = run (read_temperature_default e r # ?rest) ?s3"
    by (simp add: read_settings_def run_Cons_ok fst_steps del: run.simps(2))
  have ok: "fst (read_temperature_default e r ?s3) = None"
  proof (rule ccontr)
    assume bad: "fst (read_temperature_default e r ?s3) \<noteq> None"
    then have "read_settings e r st = read_temperature_default e r ?s3"
      unfolding three by (rule run_Cons_fail)
    then have "fst (read_settings e r st) = Some InvalidArgument"
      using bad by (simp add: fst_steps split: if_splits)
    then show False using assms by simp
  qed
  show ?thesis
    unfolding three
  proof (rule run_tail_invariant [where I = "\<lambda>s :: globals. temperature_default s = ?v"])
    show "fst (read_temperature_default e r ?s3) = None" by (rule ok)
    show "temperature_default (snd (read_temperature_default e r ?s3)) = ?v"
      by (simp add: snd_steps split: option.splits)
  next
    fix g and s :: globals
    assume "g \<in> set ?rest" and "temperature_default s = ?v"
    then show "temperature_default (snd (g s)) = ?v"
      by (auto simp add: snd_steps read_sources_fields)
  qed
qed

section \<open>The sample documents\<close>

lemmas document_defs =
  check_for_node_def child_def children_named_def get_node_value_def
  output_path_def constructs_def

lemma temp_str_doc_bad_method: "temp_str doc_bad_method = ''bogus''"
  by code_simp

lemma temp_str_doc_nearest: "temp_str doc_nearest = ''nearest''"
  by code_simp

lemma temp_str_doc_no_source: "temp_str doc_no_source = ''interpolation''"
  by code_simp

section \<open>The external sources\<close>

text \<open>
  C1. When the document has no \<^verbatim>\<open>source\<close> node and \<open>external_sources\<close> is empty before
  the call, a load that is not aborted (the document keeps to the schema) returns with
  exactly one element in \<open>external_sources\<close>: the point at the origin, the isotropic
  angular distribution and the Watt spectrum with \<open>a = 0.988\<close> and \<open>b = 2.249e-6\<close>.
\<close>

theorem read_settings_default_source:
  assumes "children_named r ''source'' = []"
    and "external_sources st = []"
    and "valid_document e r"
  shows "fst (read_settings e r st) = None \<and>
         length (external_sources (snd (read_settings e r st))) = 1 \<and>
         external_sources (snd (read_settings e r st)) =
           [\<lparr>spatial = SpatialPoint 0.0 0.0 0.0, angular = Isotropic,
             energy = Watt 0.988 (2.249 / 10 ^ 6)\<rparr>]"
  using assms
  by (simp add: read_settings_def valid_document_def run_Cons_ok fst_steps snd_steps not_less
           del: run.simps(2))

theorem read_settings_default_source_witness:
  "children_named doc_no_source ''source'' = [] \<and>
   external_sources (settings sample_externals) = [] \<and>
   valid_document sample_externals doc_no_source \<and>
   fst (read_settings sample_externals doc_no_source (settings sample_externals)) = None \<and>
   external_sources
     (snd (read_settings sample_externals doc_no_source (settings sample_externals))) =
     [\<lparr>spatial = SpatialPoint 0 0 0, angular = Isotropic,
       energy = Watt 0.988 (2.249 / 10 ^ 6)\<rparr>]"
proof -
  have a: "children_named doc_no_source ''source'' = []"
    by (simp add: doc_no_source_def children_named_def)
  have b: "external_sources (settings sample_externals) = []"
    by (simp add: settings_def)
  have c: "valid_document sample_externals doc_no_source"
    by (simp add: valid_document_def document_defs doc_no_source_def sample_externals_def
          temp_str_def to_lower_def to_lower_char_def strip_def is_space_def)
  show ?thesis
    using read_settings_default_source [OF a b c] a b c by simp
qed

text \<open>
  C2. When the document has \<open>N \<ge> 1\<close> \<^verbatim>\<open>source\<close> nodes and \<open>external_sources\<close> is empty
  before the call, a load that is not aborted returns with exactly \<open>N\<close> elements in
  \<open>external_sources\<close>: what the constructor makes of each \<^verbatim>\<open>source\<close> node, in document
  order. Nothing else is in the list, so the default source is not appended.
\<close>

theorem read_settings_document_sources:
  assumes "children_named r ''source'' \<noteq> []"
    and "external_sources st = []"
    and "valid_document e r"
  shows "fst (read_settings e r st) = None \<and>
         length (external_sources (snd (read_settings e r st))) =
           length (children_named r ''source'') \<and>
         map Inr (external_sources (snd (read_settings e r st))) =
           map (SourceDistribution_node e) (children_named r ''source'')"
proof -
  let ?nodes = "children_named r ''source''"
  let ?pre = "[read_cross_sections r, read_multipole_library e r, read_output r,
               read_temperature_default e r, read_temperature_method e r,
               read_temperature_tolerance e r, read_temperature_multipole e r,
               read_temperature_range e r]"
  define s8 where "s8 = snd (run ?pre st)"
  define s9 where "s9 = snd (read_sources e ?nodes s8)"
  have ok: "fst (read_settings e r st) = None"
    using assms(3) by (simp add: read_settings_succeeds_iff)
  have all: "list_all (constructs e) ?nodes"
    using assms(3) by (simp add: valid_document_def)
  have pre_ok: "fst (run ?pre st) = None"
    using assms(3)
    by (simp add: valid_document_def fst_run_Cons fst_steps not_less del: run.simps(2))
  have pre_src: "external_sources s8 = []"
    unfolding s8_def
  proof (rule run_invariant [where I = "\<lambda>s :: globals. external_sources s = []"])
    show "external_sources st = []" by (rule assms(2))
  next
    fix f and s :: globals
    assume "f \<in> set ?pre" and "external_sources s = []"
    then show "external_sources (snd (f s)) = []"
      by (auto simp add: snd_steps)
  qed
  have built: "map Inr (external_sources s9) = map (SourceDistribution_node e) ?nodes"
    unfolding s9_def using snd_read_sources_ok [OF all, of s8] pre_src by simp
  then have "length (external_sources s9) = length ?nodes"
    by (metis length_map)
  then have nonempty: "external_sources s9 \<noteq> []"
    using assms(1) by auto
  have "read_settings e r st = run (?pre @ [read_sources e ?nodes, default_source]) st"
    by (simp add: read_settings_def del: run.simps(2))
  also have "\<dots> = run [read_sources e ?nodes, default_source] s8"
    unfolding s8_def using pre_ok by (rule run_append_ok)
  also have "\<dots> = default_source s9"
    unfolding s9_def using all by (simp add: run_Cons_if fst_steps prod_eq_iff del: run.simps(2))
  finally have "external_sources (snd (read_settings e r st)) = external_sources s9"
    using nonempty by (simp add: snd_default_source)
  then show ?thesis
    using ok built by (metis length_map)
qed

theorem read_settings_document_sources_witness:
  "children_named doc_two_sources ''source'' \<noteq> [] \<and>
   valid_document sample_externals doc_two_sources \<and>
   fst (read_settings sample_externals doc_two_sources (settings sample_externals)) = None \<and>
   external_sources
     (snd (read_settings sample_externals doc_two_sources (settings sample_externals))) =
     [\<lparr>spatial = SpatialOther (Xml_node ''source'' ''first'' []),
       angular = AngleOther (Xml_node ''source'' ''first'' []),
       energy = EnergyOther (Xml_node ''source'' ''first'' [])\<rparr>,
      \<lparr>spatial = SpatialOther (Xml_node ''source'' ''second'' []),
       angular = AngleOther (Xml_node ''source'' ''second'' []),
       energy = EnergyOther (Xml_node ''source'' ''second'' [])\<rparr>]"
proof -
  have a: "children_named doc_two_sources ''source'' \<noteq> []"
    by (simp add: doc_two_sources_def children_named_def)
  have b: "external_sources (settings sample_externals) = []"
    by (simp add: settings_def)
  have c: "valid_document sample_externals doc_two_sources"
    by (simp add: valid_document_def document_defs temp_str_def doc_two_sources_def
          sample_externals_def)
  have d: "map (SourceDistribution_node sample_externals)
             (children_named doc_two_sources ''source'') =
           map Inr
             [\<lparr>spatial = SpatialOther (Xml_node ''source'' ''first'' []),
               angular = AngleOther (Xml_node ''source'' ''first'' []),
               energy = EnergyOther (Xml_node ''source'' ''first'' [])\<rparr>,
              \<lparr>spatial = SpatialOther (Xml_node ''source'' ''second'' []),
               angular = AngleOther (Xml_node ''source'' ''second'' []),
               energy = EnergyOther (Xml_node ''source'' ''second'' [])\<rparr>]"
    by (simp add: doc_two_sources_def children_named_def sample_externals_def)
  have "inj (Inr :: SourceDistribution \<Rightarrow> error + SourceDistribution)"
    by (simp add: inj_on_def)
  then show ?thesis
    using read_settings_document_sources [OF a b c] a c d
    by (simp only: inj_map_eq_map) simp
qed

section \<open>The temperature settings\<close>

text \<open>
  C3. Let the document have a \<^verbatim>\<open>temperature_method\<close> node, and let the token be its value,
  lowercased and trimmed. When the token is neither \<^verbatim>\<open>nearest\<close> nor \<^verbatim>\<open>interpolation\<close>,
  \<open>read_settings\<close> does not return normally and \<open>temperature_method\<close> keeps its value:
  no method is put in the place of an unknown token. The load ends with the fatal
  error "Unknown temperature method: " followed by the token, provided it gets as far
  as the lookup, that is, the conversion of \<^verbatim>\<open>temperature_default\<close> just before it has
  not thrown. In a document that keeps to the schema, \<^verbatim>\<open>nearest\<close> gives
  \<open>TEMPERATURE_NEAREST\<close> and \<^verbatim>\<open>interpolation\<close> gives \<open>TEMPERATURE_INTERPOLATION\<close>.
\<close>

theorem read_settings_temperature_method:
  assumes "check_for_node r ''temperature_method''"
  shows "(temp_str r \<noteq> ''nearest'' \<and> temp_str r \<noteq> ''interpolation'' \<longrightarrow>
            fst (read_settings e r st) \<noteq> None \<and>
            temperature_method (snd (read_settings e r st)) = temperature_method st \<and>
            ((check_for_node r ''temperature_default'' \<longrightarrow>
                stod e (get_node_value r ''temperature_default'' False False) \<noteq> None) \<longrightarrow>
             fst (read_settings e r st) =
               Some (FatalError (''Unknown temperature method: '' @ temp_str r)))) \<and>
         (temp_str r = ''nearest'' \<and> valid_document e r \<longrightarrow>
            fst (read_settings e r st) = None \<and>
            temperature_method (snd (read_settings e r st)) = TEMPERATURE_NEAREST e) \<and>
         (temp_str r = ''interpolation'' \<and> valid_document e r \<longrightarrow>
            fst (read_settings e r st) = None \<and>
            temperature_method (snd (read_settings e r st)) = TEMPERATURE_INTERPOLATION e)"
proof (intro conjI impI)
  assume bad: "temp_str r \<noteq> ''nearest'' \<and> temp_str r \<noteq> ''interpolation''"
  then have "\<not> valid_document e r"
    using assms by (simp add: valid_document_def)
  then show "fst (read_settings e r st) \<noteq> None"
    by (simp add: read_settings_succeeds_iff)
  show "temperature_method (snd (read_settings e r st)) = temperature_method st"
  proof (cases "check_for_node r ''temperature_default'' \<and>
      stod e (get_node_value r ''temperature_default'' False False) = None")
    case True
    then show ?thesis
      by (simp add: read_settings_def run_Cons_ok run_Cons_fail fst_steps snd_steps
            del: run.simps(2))
  next
    case False
    then show ?thesis
      using assms bad
      by (simp add: read_settings_def run_Cons_ok run_Cons_fail fst_steps snd_steps
            del: run.simps(2))
  qed
  assume num: "check_for_node r ''temperature_default'' \<longrightarrow>
    stod e (get_node_value r ''temperature_default'' False False) \<noteq> None"
  show "fst (read_settings e r st) =
          Some (FatalError (''Unknown temperature method: '' @ temp_str r))"
    using assms bad num
    by (simp add: read_settings_def run_Cons_ok run_Cons_fail fst_steps del: run.simps(2))
next
  assume h: "temp_str r = ''nearest'' \<and> valid_document e r"
  then show "fst (read_settings e r st) = None"
    by (simp add: read_settings_succeeds_iff)
  show "temperature_method (snd (read_settings e r st)) = TEMPERATURE_NEAREST e"
    using assms h
    by (simp add: read_settings_def valid_document_def run_Cons_ok fst_steps snd_steps
          read_sources_fields not_less del: run.simps(2))
next
  assume h: "temp_str r = ''interpolation'' \<and> valid_document e r"
  then show "fst (read_settings e r st) = None"
    by (simp add: read_settings_succeeds_iff)
  show "temperature_method (snd (read_settings e r st)) = TEMPERATURE_INTERPOLATION e"
    using assms h
    by (simp add: read_settings_def valid_document_def run_Cons_ok fst_steps snd_steps
          read_sources_fields not_less del: run.simps(2))
qed

theorem read_settings_temperature_method_witness:
  "check_for_node doc_bad_method ''temperature_method'' \<and>
   temp_str doc_bad_method = ''bogus'' \<and>
   fst (read_settings sample_externals doc_bad_method (settings sample_externals)) =
     Some (FatalError ''Unknown temperature method: bogus'') \<and>
   temperature_method
     (snd (read_settings sample_externals doc_bad_method (settings sample_externals))) =
     temperature_method (settings sample_externals) \<and>
   temp_str doc_nearest = ''nearest'' \<and>
   temperature_method
     (snd (read_settings sample_externals doc_nearest
            ((settings sample_externals)\<lparr>temperature_method := 2\<rparr>))) = 1 \<and>
   temp_str doc_no_source = ''interpolation'' \<and>
   temperature_method
     (snd (read_settings sample_externals doc_no_source (settings sample_externals))) = 2"
proof -
  have a1: "check_for_node doc_bad_method ''temperature_method''"
    by (simp add: document_defs doc_bad_method_def)
  have a2: "check_for_node doc_bad_method ''temperature_default'' \<longrightarrow>
            stod sample_externals
              (get_node_value doc_bad_method ''temperature_default'' False False) \<noteq> None"
    by (simp add: document_defs doc_bad_method_def sample_externals_def)
  have b1: "check_for_node doc_nearest ''temperature_method''"
    by (simp add: document_defs doc_nearest_def)
  have b2: "valid_document sample_externals doc_nearest"
    by (simp add: valid_document_def temp_str_doc_nearest)
       (simp add: document_defs doc_nearest_def)
  have c1: "check_for_node doc_no_source ''temperature_method''"
    by (simp add: document_defs doc_no_source_def)
  have c2: "valid_document sample_externals doc_no_source"
    by (simp add: valid_document_def temp_str_doc_no_source)
       (simp add: document_defs doc_no_source_def sample_externals_def)
  show ?thesis
    using read_settings_temperature_method [OF a1, of sample_externals "settings sample_externals"]
      read_settings_temperature_method [OF b1, of sample_externals "(settings sample_externals)\<lparr>temperature_method := 2\<rparr>"]
      read_settings_temperature_method [OF c1, of sample_externals "settings sample_externals"]
      a1 a2 b2 c2
    by (simp add: temp_str_doc_bad_method temp_str_doc_nearest temp_str_doc_no_source
          sample_externals_def)
qed

text \<open>
  C8. When the document has a \<^verbatim>\<open>temperature_range\<close> node whose array has at least two
  entries, a load that is not aborted puts entry 0 into \<open>temperature_range[0]\<close> and
  entry 1 into \<open>temperature_range[1]\<close>. Nothing is asked of the order of the two
  values: the statement holds for every array.
\<close>

theorem read_settings_temperature_range:
  assumes "check_for_node r ''temperature_range''"
    and "2 \<le> length (get_node_array e r ''temperature_range'')"
    and "valid_document e r"
  shows "fst (read_settings e r st) = None \<and>
         temperature_range (snd (read_settings e r st)) =
           (get_node_array e r ''temperature_range'' ! 0,
            get_node_array e r ''temperature_range'' ! 1)"
  using assms
  by (simp add: read_settings_def valid_document_def run_Cons_ok fst_steps snd_steps
        read_sources_fields not_less Let_def del: run.simps(2))

theorem read_settings_temperature_range_witness:
  "check_for_node doc_legacy ''temperature_range'' \<and>
   get_node_array sample_externals doc_legacy ''temperature_range'' = [600, 300] \<and>
   valid_document sample_externals doc_legacy \<and>
   fst (read_settings sample_externals doc_legacy (settings sample_externals)) = None \<and>
   temperature_range
     (snd (read_settings sample_externals doc_legacy (settings sample_externals))) =
     (600, 300)"
proof -
  have a: "check_for_node doc_legacy ''temperature_range''"
    by (simp add: document_defs doc_legacy_def)
  have arr: "get_node_array sample_externals doc_legacy ''temperature_range'' = [600, 300]"
    by (simp add: document_defs doc_legacy_def sample_externals_def)
  then have b: "2 \<le> length (get_node_array sample_externals doc_legacy ''temperature_range'')"
    by simp
  have c: "valid_document sample_externals doc_legacy"
    using arr by (simp add: valid_document_def) (simp add: document_defs doc_legacy_def)
  show ?thesis
    using read_settings_temperature_range [OF a b c, of "settings sample_externals"] a arr c by simp
qed

section \<open>Paths\<close>

text \<open>
  C4. The statement that normalizes a path appends one \<^verbatim>\<open>/\<close> to a string that does not
  end in \<^verbatim>\<open>/\<close>, leaves a string that ends in \<^verbatim>\<open>/\<close> as it is, and applied twice gives
  what it gives applied once. It is what \<open>read_settings\<close> leaves in \<open>path_output\<close>
  when the document gives an output path, and in \<open>path_multipole\<close> when the run mode
  is not plotting.
\<close>

theorem append_separator_normalizes:
  "(s = [] \<or> last s \<noteq> CHR ''/'' \<longrightarrow> append_separator s = s @ ''/'') \<and>
   (s \<noteq> [] \<and> last s = CHR ''/'' \<longrightarrow> append_separator s = s) \<and>
   append_separator (append_separator s) = append_separator s \<and>
   (output_path r = Some p \<longrightarrow>
      path_output (snd (read_settings e r st)) = append_separator p) \<and>
   (run_mode st \<noteq> RUN_MODE_PLOTTING e \<longrightarrow>
      path_multipole (snd (read_settings e r st)) =
        append_separator
          (if check_for_node r ''multipole_library''
           then get_node_value r ''multipole_library'' False False
           else path_multipole st))"
proof -
  have e: "ends_with q ''/'' = (q \<noteq> [] \<and> last q = CHR ''/'')" for q
  proof (cases q rule: rev_cases)
    case Nil
    then show ?thesis by (simp add: ends_with_def)
  next
    case (snoc ys y)
    then show ?thesis by (simp add: ends_with_def)
  qed
  have pure: "(s = [] \<or> last s \<noteq> CHR ''/'' \<longrightarrow> append_separator s = s @ ''/'') \<and>
      (s \<noteq> [] \<and> last s = CHR ''/'' \<longrightarrow> append_separator s = s) \<and>
      append_separator (append_separator s) = append_separator s"
    by (simp add: append_separator_def e)
  have out: "output_path r = Some p \<longrightarrow>
      path_output (snd (read_settings e r st)) = append_separator p"
    by (simp add: path_output_read_settings)
  have mp: "run_mode st \<noteq> RUN_MODE_PLOTTING e \<longrightarrow>
      path_multipole (snd (read_settings e r st)) =
        append_separator
          (if check_for_node r ''multipole_library''
           then get_node_value r ''multipole_library'' False False
           else path_multipole st)"
    by (simp add: path_multipole_read_settings)
  show ?thesis using pure out mp by blast
qed

theorem append_separator_normalizes_witness:
  "append_separator ''results'' = ''results/'' \<and>
   append_separator ''results/'' = ''results/'' \<and>
   output_path doc_bad_method = Some ''results'' \<and>
   path_output
     (snd (read_settings sample_externals doc_bad_method (settings sample_externals))) =
     ''results/'' \<and>
   run_mode (settings sample_externals) \<noteq> RUN_MODE_PLOTTING sample_externals \<and>
   path_multipole
     (snd (read_settings sample_externals doc_legacy (settings sample_externals))) =
     ''wmp/''"
proof -
  have a: "output_path doc_bad_method = Some ''results''"
    by (simp add: document_defs doc_bad_method_def)
  have b: "run_mode (settings sample_externals) \<noteq> RUN_MODE_PLOTTING sample_externals"
    by (simp add: settings_def sample_externals_def)
  have c: "check_for_node doc_legacy ''multipole_library'' \<and>
           get_node_value doc_legacy ''multipole_library'' False False = ''wmp''"
    by (simp add: document_defs doc_legacy_def)
  show ?thesis
    using append_separator_normalizes
            [of "''results''" doc_bad_method "''results''" sample_externals
                "settings sample_externals"]
          append_separator_normalizes
            [of "''results/''" doc_legacy "''results''" sample_externals
                "settings sample_externals"]
          append_separator_normalizes
            [of "''wmp''" doc_legacy "''results''" sample_externals
                "settings sample_externals"]
          a b c
    by simp
qed

text \<open>
  C6. When the document has a \<^verbatim>\<open>cross_sections\<close> node, \<open>read_settings\<close> prints the
  warning about the deprecated field exactly once and leaves the text of the node in
  \<open>path_cross_sections\<close> as it is, without a separator appended. The node never aborts
  the load: a document that keeps to the schema is read to the end.
\<close>

theorem read_settings_cross_sections:
  assumes "child r ''cross_sections'' = Some c"
  shows "path_cross_sections (snd (read_settings e r st)) = node_text c \<and>
         (\<exists>rest. warnings (snd (read_settings e r st)) =
                    warnings st @ cross_sections_deprecated # rest \<and>
                  cross_sections_deprecated \<notin> set rest) \<and>
         (valid_document e r \<longrightarrow> fst (read_settings e r st) = None)"
proof (intro conjI)
  have present: "check_for_node r ''cross_sections''"
    using assms by (simp add: check_for_node_def)
  have "get_node_value r ''cross_sections'' False False = node_text c"
    using assms by (simp add: get_node_value_def)
  then show "path_cross_sections (snd (read_settings e r st)) = node_text c"
    using present by (simp add: path_cross_sections_read_settings)
  let ?I = "\<lambda>s :: globals. \<exists>rest. warnings s = warnings st @ cross_sections_deprecated # rest \<and>
              cross_sections_deprecated \<notin> set rest"
  show "?I (snd (read_settings e r st))"
    unfolding read_settings_def
  proof (rule run_tail_invariant [where I = ?I])
    show "fst (read_cross_sections r st) = None" by (simp add: fst_steps)
    show "?I (snd (read_cross_sections r st))"
      using present by (simp add: snd_steps)
  next
    fix g and s :: globals
    assume "g \<in> set [read_multipole_library e r, read_output r,
                read_temperature_default e r, read_temperature_method e r,
                read_temperature_tolerance e r, read_temperature_multipole e r,
                read_temperature_range e r,
                read_sources e (children_named r ''source''), default_source]"
      and "?I s"
    then show "?I (snd (g s))"
      using cross_sections_not_multipole
      by (auto simp add: snd_steps read_sources_fields)
  qed
  show "valid_document e r \<longrightarrow> fst (read_settings e r st) = None"
    by (simp add: read_settings_succeeds_iff)
qed

theorem read_settings_cross_sections_witness:
  "child doc_legacy ''cross_sections'' =
     Some (Xml_node ''cross_sections'' ''xs/cross_sections.xml'' []) \<and>
   valid_document sample_externals doc_legacy \<and>
   fst (read_settings sample_externals doc_legacy (settings sample_externals)) = None \<and>
   path_cross_sections
     (snd (read_settings sample_externals doc_legacy (settings sample_externals))) =
     ''xs/cross_sections.xml'' \<and>
   (\<exists>rest.
      warnings (snd (read_settings sample_externals doc_legacy (settings sample_externals))) =
        cross_sections_deprecated # rest \<and>
      cross_sections_deprecated \<notin> set rest)"
proof -
  have a: "child doc_legacy ''cross_sections'' =
             Some (Xml_node ''cross_sections'' ''xs/cross_sections.xml'' [])"
    by (simp add: document_defs doc_legacy_def)
  have b: "valid_document sample_externals doc_legacy"
    by (simp add: valid_document_def) (simp add: document_defs doc_legacy_def sample_externals_def)
  have c: "warnings (settings sample_externals) = []"
    by (simp add: settings_def)
  show ?thesis
    using read_settings_cross_sections [OF a, of sample_externals "settings sample_externals"]
          a b c
    by simp
qed

text \<open>
  C7. When the run mode is plotting, \<open>read_settings\<close> leaves \<open>path_multipole\<close> as it
  was, whether or not the document has a \<^verbatim>\<open>multipole_library\<close> node.
\<close>

theorem read_settings_plotting_multipole:
  assumes "run_mode st = RUN_MODE_PLOTTING e"
  shows "path_multipole (snd (read_settings e r st)) = path_multipole st"
proof -
  let ?I = "\<lambda>s :: globals. run_mode s = run_mode st \<and> path_multipole s = path_multipole st"
  have "?I (snd (read_settings e r st))"
    unfolding read_settings_def
  proof (rule run_invariant [where I = ?I])
    show "?I st" by simp
  next
    fix f and s :: globals
    assume "f \<in> set [read_cross_sections r, read_multipole_library e r, read_output r,
                read_temperature_default e r, read_temperature_method e r,
                read_temperature_tolerance e r, read_temperature_multipole e r,
                read_temperature_range e r,
                read_sources e (children_named r ''source''), default_source]"
      and "?I s"
    then show "?I (snd (f s))"
      using assms by (auto simp add: snd_steps read_sources_fields)
  qed
  then show ?thesis by simp
qed

theorem read_settings_plotting_multipole_witness:
  "run_mode ((settings sample_externals)\<lparr>run_mode := 3\<rparr>) = RUN_MODE_PLOTTING sample_externals \<and>
   check_for_node doc_legacy ''multipole_library'' \<and>
   path_multipole
     (snd (read_settings sample_externals doc_legacy
            ((settings sample_externals)\<lparr>run_mode := 3\<rparr>))) = []"
proof -
  have a: "run_mode ((settings sample_externals)\<lparr>run_mode := 3\<rparr>) =
           RUN_MODE_PLOTTING sample_externals"
    by (simp add: sample_externals_def)
  have b: "check_for_node doc_legacy ''multipole_library''"
    by (simp add: document_defs doc_legacy_def)
  show ?thesis
    using read_settings_plotting_multipole [OF a, of doc_legacy] a b by (simp add: settings_def)
qed

text \<open>
  C9. When the run mode is not plotting, the document has no \<^verbatim>\<open>multipole_library\<close> node
  and \<open>path_multipole\<close> is empty before the call, \<open>path_multipole\<close> is \<^verbatim>\<open>/\<close> afterwards.
\<close>

theorem read_settings_multipole_separator:
  assumes "run_mode st \<noteq> RUN_MODE_PLOTTING e"
    and "\<not> check_for_node r ''multipole_library''"
    and "path_multipole st = []"
  shows "path_multipole (snd (read_settings e r st)) = ''/''"
proof -
  let ?I = "\<lambda>s :: globals. path_multipole s = ''/''"
  let ?s1 = "snd (read_cross_sections r st)"
  have one: "read_settings e r st =
      run [read_multipole_library e r, read_output r,
           read_temperature_default e r, read_temperature_method e r,
           read_temperature_tolerance e r, read_temperature_multipole e r,
           read_temperature_range e r,
           read_sources e (children_named r ''source''), default_source] ?s1"
    by (simp add: read_settings_def run_Cons_ok fst_steps del: run.simps(2))
  have "?I (snd (read_settings e r st))"
    unfolding one
  proof (rule run_tail_invariant [where I = ?I])
    show "fst (read_multipole_library e r ?s1) = None" by (simp add: fst_steps)
    show "?I (snd (read_multipole_library e r ?s1))"
      using assms by (simp add: snd_steps append_separator_def ends_with_def)
  next
    fix g and s :: globals
    assume "g \<in> set [read_output r,
                read_temperature_default e r, read_temperature_method e r,
                read_temperature_tolerance e r, read_temperature_multipole e r,
                read_temperature_range e r,
                read_sources e (children_named r ''source''), default_source]"
      and "?I s"
    then show "?I (snd (g s))"
      by (auto simp add: snd_steps read_sources_fields)
  qed
  then show ?thesis .
qed

theorem read_settings_multipole_separator_witness:
  "run_mode (settings sample_externals) \<noteq> RUN_MODE_PLOTTING sample_externals \<and>
   \<not> check_for_node doc_no_source ''multipole_library'' \<and>
   path_multipole (settings sample_externals) = [] \<and>
   path_multipole
     (snd (read_settings sample_externals doc_no_source (settings sample_externals))) = ''/''"
proof -
  have a: "run_mode (settings sample_externals) \<noteq> RUN_MODE_PLOTTING sample_externals"
    by (simp add: settings_def sample_externals_def)
  have b: "\<not> check_for_node doc_no_source ''multipole_library''"
    by (simp add: document_defs doc_no_source_def)
  have c: "path_multipole (settings sample_externals) = []"
    by (simp add: settings_def)
  show ?thesis
    using read_settings_multipole_separator [OF a b c] a b c by simp
qed

section \<open>The registry before and during a load\<close>

text \<open>
  C5. Before any document is read, \<open>temperature_method\<close> is \<open>TEMPERATURE_NEAREST\<close>,
  \<open>temperature_tolerance\<close> is 10.0, \<open>temperature_default\<close> is 293.6 and
  \<open>energy_cutoff\<close> is \<open>{0.0, 1000.0, 0.0, 0.0}\<close>.
\<close>

theorem settings_defaults:
  "temperature_method (settings e) = TEMPERATURE_NEAREST e \<and>
   temperature_tolerance (settings e) = 10.0 \<and>
   temperature_default (settings e) = 293.6 \<and>
   energy_cutoff (settings e) = (0.0, 1000.0, 0.0, 0.0)"
  by (simp add: settings_def)

text \<open>
  C10. When the load ends with the fatal error about an unknown temperature method,
  the globals at that moment hold what the statements before the lookup have written:
  \<open>path_cross_sections\<close>, \<open>path_multipole\<close>, \<open>path_output\<close> and \<open>temperature_default\<close>
  have the values that the document gives them. Nothing is restored.
\<close>

theorem read_settings_not_atomic:
  assumes "fst (read_settings e r st) =
             Some (FatalError (''Unknown temperature method: '' @ temp_str r))"
  shows "path_cross_sections (snd (read_settings e r st)) =
           (if check_for_node r ''cross_sections''
            then get_node_value r ''cross_sections'' False False
            else path_cross_sections st) \<and>
         path_multipole (snd (read_settings e r st)) =
           (if run_mode st \<noteq> RUN_MODE_PLOTTING e
            then append_separator
                   (if check_for_node r ''multipole_library''
                    then get_node_value r ''multipole_library'' False False
                    else path_multipole st)
            else path_multipole st) \<and>
         path_output (snd (read_settings e r st)) =
           (case output_path r of
              None \<Rightarrow> path_output st | Some p \<Rightarrow> append_separator p) \<and>
         (if check_for_node r ''temperature_default''
          then stod e (get_node_value r ''temperature_default'' False False) =
                 Some (temperature_default (snd (read_settings e r st)))
          else temperature_default (snd (read_settings e r st)) = temperature_default st)"
proof (intro conjI)
  have not_stod: "fst (read_settings e r st) \<noteq> Some InvalidArgument"
    using assms by simp
  have "check_for_node r ''temperature_default'' \<Longrightarrow>
          stod e (get_node_value r ''temperature_default'' False False) \<noteq> None"
  proof
    assume "check_for_node r ''temperature_default''"
      and "stod e (get_node_value r ''temperature_default'' False False) = None"
    then have "fst (read_settings e r st) = Some InvalidArgument"
      by (simp add: read_settings_def run_Cons_ok run_Cons_fail fst_steps del: run.simps(2))
    then show False using not_stod by simp
  qed
  then show "if check_for_node r ''temperature_default''
          then stod e (get_node_value r ''temperature_default'' False False) =
                 Some (temperature_default (snd (read_settings e r st)))
          else temperature_default (snd (read_settings e r st)) = temperature_default st"
    using temperature_default_read_settings [OF not_stod] by auto
qed (simp_all add: path_cross_sections_read_settings path_multipole_read_settings
       path_output_read_settings)

theorem read_settings_not_atomic_witness:
  "fst (read_settings sample_externals doc_bad_method (settings sample_externals)) =
     Some (FatalError (''Unknown temperature method: '' @ temp_str doc_bad_method)) \<and>
   path_cross_sections
     (snd (read_settings sample_externals doc_bad_method (settings sample_externals))) =
     ''xs/cross_sections.xml'' \<and>
   path_multipole
     (snd (read_settings sample_externals doc_bad_method (settings sample_externals))) =
     ''/'' \<and>
   path_output
     (snd (read_settings sample_externals doc_bad_method (settings sample_externals))) =
     ''results/'' \<and>
   temperature_default
     (snd (read_settings sample_externals doc_bad_method (settings sample_externals))) =
     300 \<and>
   snd (read_settings sample_externals doc_bad_method (settings sample_externals)) \<noteq>
     settings sample_externals"
proof -
  let ?st = "settings sample_externals"
  let ?rs = "read_settings sample_externals doc_bad_method ?st"
  have checks:
    "check_for_node doc_bad_method ''cross_sections''"
    "\<not> check_for_node doc_bad_method ''multipole_library''"
    "check_for_node doc_bad_method ''temperature_default''"
    "check_for_node doc_bad_method ''temperature_method''"
    by (simp_all add: document_defs doc_bad_method_def)
  have vals:
    "get_node_value doc_bad_method ''cross_sections'' False False = ''xs/cross_sections.xml''"
    "output_path doc_bad_method = Some ''results''"
    "stod sample_externals (get_node_value doc_bad_method ''temperature_default'' False False) =
       Some 300"
    by (simp_all add: document_defs doc_bad_method_def sample_externals_def)
  have a: "fst ?rs =
      Some (FatalError (''Unknown temperature method: '' @ temp_str doc_bad_method))"
    using checks vals
    by (simp add: read_settings_def run_Cons_ok run_Cons_fail fst_steps
          temp_str_doc_bad_method del: run.simps(2))
  have sep: "append_separator [] = ''/''" "append_separator ''results'' = ''results/''"
    by (simp_all add: append_separator_def ends_with_def)
  have fields:
    "path_cross_sections (snd ?rs) = ''xs/cross_sections.xml''"
    "path_multipole (snd ?rs) = ''/''"
    "path_output (snd ?rs) = ''results/''"
    "temperature_default (snd ?rs) = 300"
    using read_settings_not_atomic [OF a] checks vals sep
    by (simp_all add: settings_def sample_externals_def)
  have "path_cross_sections (snd ?rs) \<noteq> path_cross_sections ?st"
    using fields(1) by (simp add: settings_def)
  then have "snd ?rs \<noteq> ?st" by auto
  then show ?thesis
    using a fields by simp
qed

end
